theory Spec2Isabelle
  imports Complex_Main "HOL-Library.Multiset"
begin

section \<open>JavaScript values used by the dashboard\<close>

text \<open>
  The frontend is TypeScript running on JavaScript numbers, which are IEEE 754 doubles. A
  finite double is modelled by the real number it denotes, and every arithmetic operation
  of the code rounds its exact result to a double (next section); the one non-real number
  that the modelled code can produce, \<open>NaN\<close>, is written \<open>None\<close> wherever it can occur.

  A \<open>Date\<close> object holds a time value: a whole number of milliseconds since the epoch, or
  \<open>NaN\<close> (an invalid date). \<open>new Date(t)\<close> clips a number \<open>t\<close> to that form: a value of
  magnitude above 8.64e15 gives an invalid date, any other value is truncated towards
  zero.
\<close>

datatype jsdate = Invalid_Date | Date_ms int

definition js_trunc :: "real \<Rightarrow> int" where
  "js_trunc x = (if 0 \<le> x then \<lfloor>x\<rfloor> else \<lceil>x\<rceil>)"

fun new_Date :: "real option \<Rightarrow> jsdate" where
  "new_Date None = Invalid_Date"
| "new_Date (Some t) =
     (if \<bar>t\<bar> > 8640000000000000 then Invalid_Date else Date_ms (js_trunc t))"

fun getTime :: "jsdate \<Rightarrow> int option" where
  "getTime Invalid_Date = None"
| "getTime (Date_ms n) = Some n"

text \<open>
  Truthiness of a time that is \<open>null\<close>, \<open>undefined\<close> or \<open>NaN\<close> (all \<open>None\<close>) or a number:
  only a non-zero number is truthy.
\<close>

fun truthy_time :: "int option \<Rightarrow> bool" where
  "truthy_time None = False"
| "truthy_time (Some n) = (n \<noteq> 0)"


section \<open>Double-precision arithmetic\<close>

text \<open>
  Rounding to the nearest double, ties to even: a real \<open>x\<close> is scaled by the unit in the last
  place of its binade so that the significand has 53 bits, rounded to a whole number, and
  scaled back. Below \<open>2 powr -1022\<close> the unit stays \<open>2 powr -1074\<close> (subnormal numbers).
  Overflow to \<open>Infinity\<close> is not modelled. In the Scrubber only the pointer offset could
  overflow, and it is clamped at once, where \<open>Infinity\<close> behaves like any large number;
  the wind component overflows only for angles beyond any number of degrees.
\<close>

definition round_half_even :: "real \<Rightarrow> int" where
  "round_half_even y =
     (let n = \<lfloor>y\<rfloor>; r = y - of_int n
      in if r < 1/2 then n else if r > 1/2 then n + 1 else if even n then n else n + 1)"

definition binade :: "real \<Rightarrow> int" where
  "binade x = max \<lfloor>log 2 \<bar>x\<bar>\<rfloor> (- 1022)"

definition ulp :: "real \<Rightarrow> real" where
  "ulp x = 2 powr (of_int (binade x) - 52)"

definition fl :: "real \<Rightarrow> real" where
  "fl x = sgn x * (of_int (round_half_even (\<bar>x\<bar> / ulp x)) * ulp x)"

text \<open>The four operations on doubles: the exact result, rounded.\<close>

definition js_add :: "real \<Rightarrow> real \<Rightarrow> real" where
  "js_add a b = fl (a + b)"

definition js_sub :: "real \<Rightarrow> real \<Rightarrow> real" where
  "js_sub a b = fl (a - b)"

definition js_mul :: "real \<Rightarrow> real \<Rightarrow> real" where
  "js_mul a b = fl (a * b)"

definition js_div :: "real \<Rightarrow> real \<Rightarrow> real" where
  "js_div a b = fl (a / b)"

text \<open>\<open>Math.PI\<close>, the double nearest to \<open>pi\<close>.\<close>

definition Math_PI :: real where
  "Math_PI = 884279719003555 / 281474976710656"

text \<open>
  Library functions of the JavaScript host are parameters of the model: \<open>Math.cos\<close>, which
  the language leaves to the implementation to approximate, \<open>String(x)\<close> as used by
  template literals, \<open>x.toFixed(d)\<close>, the current wall clock as a local time string, and the
  local time string of a date given as text.
\<close>

record host =
  Math_cos :: "real \<Rightarrow> real"
  number_toString :: "real \<Rightarrow> string"
  toFixed :: "real \<Rightarrow> nat \<Rightarrow> string"
  time_now :: string
  toLocaleTimeString :: "string \<Rightarrow> string"


section \<open>Derived metrics: the wind component\<close>

text \<open>
  \<^verbatim>\<open>calculateWindComponent(trueHeading, windDirection, windSpeed)\<close> of
  \<^verbatim>\<open>InteractiveWorldMap.tsx\<close>: both angles are converted to radians, and the wind speed is
  multiplied by the cosine of their difference, each step in double arithmetic.
\<close>

definition calculateWindComponent :: "host \<Rightarrow> real \<Rightarrow> real \<Rightarrow> real \<Rightarrow> real" where
  "calculateWindComponent h trueHeading windDirection windSpeed =
     (let headingRad = js_div (js_mul trueHeading Math_PI) 180;
          windDirRad = js_div (js_mul windDirection Math_PI) 180;
          windComponent = js_mul windSpeed (Math_cos h (js_sub windDirRad headingRad))
      in windComponent)"



text \<open>The label the table attaches to a wind component (the \<open>Wind effect\<close> row).\<close>

definition wind_label :: "real \<Rightarrow> string" where
  "wind_label v = (if v > 0 then ''tailwind'' else ''headwind'')"


section \<open>The Scrubber (\<open>FlightScrubber\<close>)\<close>

text \<open>
  The component receives three times as props. Each is a whole number of milliseconds, or
  absent (\<open>null\<close>, \<open>undefined\<close> or \<open>NaN\<close>, which the component does not tell apart: all are
  falsy). The callback prop \<open>onScrubChange\<close> is modelled by the value handed to it.
\<close>

record scrubber_props =
  currentTime :: "int option"
  startTime :: "int option"
  estimatedEndTime :: "int option"

text \<open>\<^verbatim>\<open>t ? new Date(t).getTime() : null\<close>\<close>

definition valid_time :: "int option \<Rightarrow> int option" where
  "valid_time t = (if truthy_time t then
                     (case t of Some n \<Rightarrow> getTime (new_Date (Some (real_of_int n))) | None \<Rightarrow> None)
                   else None)"

definition validStartTime :: "scrubber_props \<Rightarrow> int option" where
  "validStartTime p = valid_time (startTime p)"

definition validEndTime :: "scrubber_props \<Rightarrow> int option" where
  "validEndTime p = valid_time (estimatedEndTime p)"

definition validCurrentTime :: "scrubber_props \<Rightarrow> int option" where
  "validCurrentTime p = valid_time (currentTime p)"

text \<open>\<^verbatim>\<open>validStartTime && validEndTime ? validEndTime - validStartTime : 0\<close>\<close>

definition totalDuration :: "scrubber_props \<Rightarrow> real" where
  "totalDuration p =
     (case (validStartTime p, validEndTime p) of
        (Some s, Some e) \<Rightarrow>
          (if s \<noteq> 0 \<and> e \<noteq> 0 then js_sub (real_of_int e) (real_of_int s) else 0)
      | _ \<Rightarrow> 0)"

text \<open>
  Component state: the dragging flag and the progress percentage (\<open>None\<close> is \<open>NaN\<close>).
  The bar's geometry is what \<open>getBoundingClientRect\<close> returns for the bar element.
\<close>

record scrubber_state =
  isDragging :: bool
  progress :: "real option"

record dom_rect =
  rect_left :: real
  rect_width :: real

definition scrubber_init :: scrubber_state where
  "scrubber_init = \<lparr>isDragging = False, progress = Some 0\<rparr>"

text \<open>
  What the component renders: nothing (\<open>None\<close>, the source's \<open>return null\<close>) unless both
  valid times are truthy and the duration is positive; otherwise the two time labels, the
  width of the progress bar and the time shown in the tooltip.
\<close>

record scrubber_view =
  start_label :: int
  end_label :: int
  bar_percent :: "real option"
  tooltip_time :: "real option"

definition FlightScrubber :: "scrubber_props \<Rightarrow> scrubber_state \<Rightarrow> scrubber_view option" where
  "FlightScrubber p st =
     (case (validStartTime p, validEndTime p) of
        (Some s, Some e) \<Rightarrow>
          (if s = 0 \<or> e = 0 \<or> totalDuration p \<le> 0 then None
           else Some \<lparr>start_label = s, end_label = e, bar_percent = progress st,
                      tooltip_time =
                        map_option
                          (\<lambda>pr. js_add (real_of_int s) (js_mul (totalDuration p) (js_div pr 100)))
                          (progress st)\<rparr>)
      | _ \<Rightarrow> None)"

text \<open>
  \<open>scrubberRef.current\<close> is the bar element when the last render produced the bar, and
  \<open>null\<close> when it produced nothing; \<open>rect\<close> is the geometry the element then reports.
\<close>

definition scrubberRef :: "scrubber_props \<Rightarrow> scrubber_state \<Rightarrow> dom_rect \<Rightarrow> dom_rect option" where
  "scrubberRef p st rect = map_option (\<lambda>_. rect) (FlightScrubber p st)"

text \<open>
  The clamped pointer offset \<^verbatim>\<open>Math.min(Math.max(0, clientX - rect.left), rect.width)\<close> and
  the drag position \<^verbatim>\<open>x / rect.width\<close> in \<open>[0,1]\<close>. The quotient is only formed for a bar
  of non-zero width; see \<open>handleScrub\<close> for width zero.
\<close>

definition clamp_x :: "dom_rect \<Rightarrow> real \<Rightarrow> real" where
  "clamp_x rect clientX = min (max 0 (js_sub clientX (rect_left rect))) (rect_width rect)"

definition drag_position :: "dom_rect \<Rightarrow> real \<Rightarrow> real" where
  "drag_position rect clientX = js_div (clamp_x rect clientX) (rect_width rect)"

text \<open>
  The time computed for a drag position \<open>q\<close>, in the order of the code: the progress is
  \<^verbatim>\<open>q * 100\<close>, and the time is \<^verbatim>\<open>start + (duration * (progress / 100))\<close>.
\<close>

definition scrub_time :: "int \<Rightarrow> real \<Rightarrow> real \<Rightarrow> real" where
  "scrub_time s duration q =
     js_add (real_of_int s) (js_mul duration (js_div (js_mul q 100) 100))"

text \<open>
  \<open>handleScrub(clientX)\<close> returns the new state and the \<open>Date\<close> passed to \<open>onScrubChange\<close>,
  if it is called. For a bar of width zero the clamped offset is zero as well, so
  \<open>x / rect.width\<close> is \<open>0 / 0 = NaN\<close>, and the progress and the new time are \<open>NaN\<close>.
\<close>

definition handleScrub ::
  "scrubber_props \<Rightarrow> dom_rect option \<Rightarrow> real \<Rightarrow> scrubber_state \<Rightarrow> scrubber_state \<times> jsdate option" where
  "handleScrub p ref clientX st =
     (case ref of
        None \<Rightarrow> (st, None)
      | Some rect \<Rightarrow>
          (if \<not> truthy_time (validStartTime p) \<or> totalDuration p = 0 then (st, None)
           else
             (let x = clamp_x rect clientX;
                  newProgress = (if rect_width rect = 0 then None
                                 else Some (js_mul (js_div x (rect_width rect)) 100));
                  newTime = (case (validStartTime p, newProgress) of
                               (Some s, Some pr) \<Rightarrow>
                                 Some (js_add (real_of_int s)
                                         (js_mul (totalDuration p) (js_div pr 100)))
                             | _ \<Rightarrow> None)
              in (st\<lparr>progress := newProgress\<rparr>, Some (new_Date newTime)))))"

definition handleMouseDown ::
  "scrubber_props \<Rightarrow> dom_rect option \<Rightarrow> real \<Rightarrow> scrubber_state \<Rightarrow> scrubber_state \<times> jsdate option" where
  "handleMouseDown p ref clientX st =
     (if \<not> truthy_time (validStartTime p) \<or> totalDuration p = 0 then (st, None)
      else handleScrub p ref clientX (st\<lparr>isDragging := True\<rparr>))"

definition handleMouseMove ::
  "scrubber_props \<Rightarrow> dom_rect option \<Rightarrow> real \<Rightarrow> scrubber_state \<Rightarrow> scrubber_state \<times> jsdate option" where
  "handleMouseMove p ref clientX st =
     (if isDragging st then handleScrub p ref clientX st else (st, None))"

definition handleMouseUp :: "scrubber_state \<Rightarrow> scrubber_state" where
  "handleMouseUp st = st\<lparr>isDragging := False\<rparr>"

text \<open>The effect that follows \<open>currentTime\<close> while the user is not dragging.\<close>

definition sync_progress :: "scrubber_props \<Rightarrow> scrubber_state \<Rightarrow> scrubber_state" where
  "sync_progress p st =
     (case (validCurrentTime p, validStartTime p) of
        (Some c, Some s) \<Rightarrow>
          (if \<not> isDragging st \<and> c \<noteq> 0 \<and> s \<noteq> 0 \<and> totalDuration p > 0 then
             (let elapsed = js_sub (real_of_int c) (real_of_int s);
                  newProgress = min (max (js_mul (js_div elapsed (totalDuration p)) 100) 0) 100
              in st\<lparr>progress := Some newProgress\<rparr>)
           else st)
      | _ \<Rightarrow> st)"

text \<open>
  The pointer events the component reacts to. A mouse-down can only arrive on the bar, so
  it is dropped when nothing is rendered; moves and releases arrive on the window.
\<close>

datatype pointer_event = MouseDown real | MouseMove real | MouseUp

fun scrubber_event ::
  "scrubber_props \<Rightarrow> dom_rect \<Rightarrow> pointer_event \<Rightarrow> scrubber_state \<Rightarrow> scrubber_state \<times> jsdate option" where
  "scrubber_event p rect (MouseDown cx) st =
     (if FlightScrubber p st = None then (st, None)
      else handleMouseDown p (scrubberRef p st rect) cx st)"
| "scrubber_event p rect (MouseMove cx) st = handleMouseMove p (scrubberRef p st rect) cx st"
| "scrubber_event p rect MouseUp st = (handleMouseUp st, None)"

text \<open>The degenerate inputs of the specification.\<close>

definition degenerate :: "scrubber_props \<Rightarrow> bool" where
  "degenerate p =
     (case (startTime p, estimatedEndTime p) of
        (Some s, Some e) \<Rightarrow> e \<le> s
      | _ \<Rightarrow> True)"


section \<open>Readings\<close>

text \<open>
  A \<open>Reading\<close> arrives as one JSON record of \<open>GET /readings\<close>. Every field except the
  timestamp may be absent: the key is missing (\<open>undefined\<close>) or holds \<open>null\<close>.
\<close>

datatype 'a field = Undefined | Null | Present 'a

record Reading =
  latitude :: "real field"
  longitude :: "real field"
  timestamp :: int
  altitude :: "real field"
  status :: "string field"
  estimated_arrival_time :: "string field"
  scheduled_departure_time :: "string field"
  distance_to_destination :: "real field"
  distance_from_origin :: "real field"
  distance_traveled :: "real field"
  outside_air_temperature :: "real field"
  ground_speed :: "real field"
  wind_speed :: "real field"
  wind_direction :: "real field"
  true_heading :: "real field"
  time_to_destination_minutes :: "real field"
  total_flight_time_minutes :: "real field"
  state :: "string field"
  decompression :: "string field"
  all_doors_closed :: "string field"
  weight_on_wheels :: "string field"
  departure_airport :: "string field"
  destination_airport :: "string field"
  flight_number :: "string field"
  aircraft_type :: "string field"
  flight_phase :: "string field"

text \<open>
  The table code handles field values as untyped JavaScript values: \<open>&&\<close> and \<open>||\<close> return
  one of their operands, chosen by truthiness, and \<open>===\<close> compares without conversion.
\<close>

datatype jsval = JUndefined | JNull | JNum real | JStr string

fun num :: "real field \<Rightarrow> jsval" where
  "num Undefined = JUndefined"
| "num Null = JNull"
| "num (Present x) = JNum x"

fun str :: "string field \<Rightarrow> jsval" where
  "str Undefined = JUndefined"
| "str Null = JNull"
| "str (Present s) = JStr s"

fun truthy :: "jsval \<Rightarrow> bool" where
  "truthy JUndefined = False"
| "truthy JNull = False"
| "truthy (JNum x) = (x \<noteq> 0)"
| "truthy (JStr s) = (s \<noteq> [])"

definition js_and :: "jsval \<Rightarrow> jsval \<Rightarrow> jsval" where
  "js_and a b = (if truthy a then b else a)"

definition js_or :: "jsval \<Rightarrow> jsval \<Rightarrow> jsval" where
  "js_or a b = (if truthy a then a else b)"

text \<open>
  The number inside a value that the interface types as a number, and the string inside one
  typed as a string. A formatter only receives values of the type its field declares.
\<close>

fun numOf :: "jsval \<Rightarrow> real" where
  "numOf (JNum x) = x"
| "numOf _ = 0"

fun strOf :: "jsval \<Rightarrow> string" where
  "strOf (JStr s) = s"
| "strOf _ = []"

text \<open>Interpolation \<^verbatim>\<open>${v}\<close> in a template literal.\<close>

fun js_toString :: "host \<Rightarrow> jsval \<Rightarrow> string" where
  "js_toString h JUndefined = ''undefined''"
| "js_toString h JNull = ''null''"
| "js_toString h (JNum x) = number_toString h x"
| "js_toString h (JStr s) = s"

text \<open>The two non-ASCII symbols of the table, in UTF-8: the degree sign and the arrow.\<close>

definition degree_sign :: string where
  "degree_sign = [CHR 0xC2, CHR 0xB0]"

definition arrow :: string where
  "arrow = [CHR 0xE2, CHR 0x86, CHR 0x92]"

text \<open>
  \<^verbatim>\<open>x % 60\<close> on numbers: the remainder has the sign of the dividend. It is a double
  whenever both operands are, so nothing is rounded.
\<close>

definition js_rem :: "real \<Rightarrow> real \<Rightarrow> real" where
  "js_rem x m = x - m * real_of_int (js_trunc (x / m))"


section \<open>The data table (\<open>getTableSections\<close>)\<close>

definition SHOW_UNKNOWN :: bool where
  "SHOW_UNKNOWN = True"

text \<open>
  What a row of the table holds: text, or, for one row, a member that the phase table
  inherits from \<open>Object.prototype\<close> (a function or an object, which is not text).
\<close>

datatype cell = Text string | Inherited_member string

definition formatOrSkip :: "jsval \<Rightarrow> (jsval \<Rightarrow> cell) \<Rightarrow> cell option" where
  "formatOrSkip v formatter =
     (if v = JNull \<or> v = JUndefined \<or> v = JStr [] then
        (if SHOW_UNKNOWN then Some (Text ''Unknown'') else None)
      else Some (formatter v))"

text \<open>
  \<open>getPhaseDescription\<close>: \<^verbatim>\<open>phases[phase] || phase\<close> on the table of the eight phase codes.
  The table is an object literal, so a key that is not one of the eight is looked up in
  \<open>Object.prototype\<close>; each of its members is truthy and is returned as it is.
\<close>

definition object_prototype_keys :: "string list" where
  "object_prototype_keys =
     [''constructor'', ''hasOwnProperty'', ''isPrototypeOf'', ''propertyIsEnumerable'',
      ''toLocaleString'', ''toString'', ''valueOf'', ''__proto__'', ''__defineGetter__'',
      ''__defineSetter__'', ''__lookupGetter__'', ''__lookupSetter__'']"

definition phases :: "(string \<times> string) list" where
  "phases = [(''1'', ''Pre-flight''), (''2'', ''Taxi''), (''3'', ''Take-off''),
             (''4'', ''Initial Climb''), (''5'', ''En Route''), (''6'', ''Approach''),
             (''7'', ''Landing''), (''8'', ''Post-flight'')]"

definition getPhaseDescription :: "string \<Rightarrow> cell" where
  "getPhaseDescription phase =
     (case map_of phases phase of
        Some d \<Rightarrow> (if d \<noteq> [] then Text d else Text phase)
      | None \<Rightarrow> (if phase \<in> set object_prototype_keys then Inherited_member phase
                  else Text phase))"

definition windComponent :: "host \<Rightarrow> Reading \<Rightarrow> jsval" where
  "windComponent h r =
     (if truthy (js_and (js_and (num (wind_speed r)) (num (wind_direction r))) (num (true_heading r)))
      then JNum (calculateWindComponent h (numOf (num (true_heading r)))
                   (numOf (num (wind_direction r))) (numOf (num (wind_speed r))))
      else JNull)"

definition timeInAirMinutes :: "Reading \<Rightarrow> jsval" where
  "timeInAirMinutes r = js_or (num (total_flight_time_minutes r)) (JNum 0)"

definition yes_no :: "jsval \<Rightarrow> cell" where
  "yes_no v = (if v = JStr ''1'' then Text ''Yes'' else Text ''No'')"

record DataSection =
  title :: string
  data :: "(string \<times> cell) list"

text \<open>The sections before the final filter: a row's value is \<open>None\<close> for the source's \<open>null\<close>.\<close>

definition sections :: "host \<Rightarrow> Reading \<Rightarrow> (string \<times> (string \<times> cell option) list) list" where
  "sections h r =
     (let t = numOf (timeInAirMinutes r);
          hours = real_of_int \<lfloor>js_div t 60\<rfloor>;
          minutes = js_rem t 60
      in
      [(''Flight Information'',
          [(''Time now'', Some (Text (time_now h))),
           (''Flight number'', formatOrSkip (str (flight_number r)) (\<lambda>v. Text (strOf v))),
           (''Aircraft'', formatOrSkip (str (aircraft_type r)) (\<lambda>v. Text (strOf v))),
           (''Route'', formatOrSkip (js_and (str (departure_airport r)) (str (destination_airport r)))
              (\<lambda>_. Text (js_toString h (str (departure_airport r)) @ '' '' @ arrow @ '' ''
                     @ js_toString h (str (destination_airport r))))),
           (''Time in air'', formatOrSkip (timeInAirMinutes r)
              (\<lambda>_. Text (number_toString h hours @ ''h '' @ number_toString h minutes @ ''m'')))]),
       (''Position & Altitude'',
          [(''Latitude'', formatOrSkip (num (latitude r)) (\<lambda>v. Text (toFixed h (numOf v) 4))),
           (''Longitude'', formatOrSkip (num (longitude r)) (\<lambda>v. Text (toFixed h (numOf v) 4))),
           (''Altitude'', formatOrSkip (num (altitude r)) (\<lambda>v. Text (js_toString h v @ '' ft''))),
           (''True heading'', formatOrSkip (num (true_heading r))
              (\<lambda>v. Text (toFixed h (numOf v) 1 @ degree_sign)))]),
       (''Speed & Weather'',
          [(''Ground speed'', formatOrSkip (num (ground_speed r))
              (\<lambda>v. Text (js_toString h v @ '' km/h''))),
           (''Air temp'', formatOrSkip (num (outside_air_temperature r))
              (\<lambda>v. Text (js_toString h v @ degree_sign @ ''C''))),
           (''Wind'', formatOrSkip (js_and (num (wind_speed r)) (num (wind_direction r)))
              (\<lambda>_. Text (js_toString h (num (wind_speed r)) @ '' km/h from ''
                     @ js_toString h (num (wind_direction r)) @ degree_sign))),
           (''Wind effect'', formatOrSkip (windComponent h r)
              (\<lambda>v. Text (toFixed h \<bar>numOf v\<bar> 1 @ '' km/h '' @ wind_label (numOf v))))]),
       (''Journey Progress'',
          [(''Dist from origin'', formatOrSkip (num (distance_from_origin r))
              (\<lambda>v. Text (js_toString h v @ '' km''))),
           (''Dist traveled'', formatOrSkip (num (distance_traveled r))
              (\<lambda>v. Text (js_toString h v @ '' km''))),
           (''Dist to dest'', formatOrSkip (num (distance_to_destination r))
              (\<lambda>v. Text (js_toString h v @ '' km''))),
           (''Time to dest'', formatOrSkip (num (time_to_destination_minutes r))
              (\<lambda>v. Text (js_toString h v @ '' min'')))]),
       (''Schedule'',
          [(''Est arrival'', formatOrSkip (str (estimated_arrival_time r))
              (\<lambda>v. Text (toLocaleTimeString h (strOf v)))),
           (''Scheduled departure'', formatOrSkip (str (scheduled_departure_time r))
              (\<lambda>v. Text (toLocaleTimeString h (strOf v))))]),
       (''Aircraft Status'',
          [(''Flight phase'', formatOrSkip (js_or (str (state r)) (str (flight_phase r)))
              (\<lambda>v. getPhaseDescription (strOf v))),
           (''Weight on wheels'', formatOrSkip (str (weight_on_wheels r)) yes_no),
           (''Doors closed'', formatOrSkip (str (all_doors_closed r)) yes_no),
           (''Decompression'', formatOrSkip (str (decompression r)) yes_no)])])"

text \<open>The final pass drops the rows whose value is \<open>null\<close>.\<close>

fun keep_rows :: "(string \<times> cell option) list \<Rightarrow> (string \<times> cell) list" where
  "keep_rows [] = []"
| "keep_rows ((label, None) # rows) = keep_rows rows"
| "keep_rows ((label, Some v) # rows) = (label, v) # keep_rows rows"

definition getTableSections :: "host \<Rightarrow> Reading \<Rightarrow> DataSection list" where
  "getTableSections h r = map (\<lambda>(t, rows). \<lparr>title = t, data = keep_rows rows\<rparr>) (sections h r)"

text \<open>The value the table shows under a label, if the table has a row of that label.\<close>

definition row_value :: "DataSection list \<Rightarrow> string \<Rightarrow> cell option" where
  "row_value secs label = map_of (concat (map data secs)) label"



section \<open>The Polling Client and the selection of the current reading\<close>

text \<open>
  The state of \<open>InteractiveWorldMap\<close> that polling and scrubbing touch. \<open>selectedTime\<close> is
  \<open>null\<close> (\<open>None\<close>) until the first scrub, then the time value of the scrubbed date
  (\<open>Some None\<close> for \<open>NaN\<close>).
\<close>

record app_state =
  readings :: "Reading list"
  currentReading :: "Reading option"
  selectedTime :: "int option option"

definition app_init :: app_state where
  "app_init = \<lparr>readings = [], currentReading = None, selectedTime = None\<rparr>"

text \<open>
  How one call of \<open>fetchReadings\<close> can end: \<open>fetch\<close> rejects (network error), the body is
  not JSON, the JSON value is not an array (it has no \<open>sort\<close>), or it is an array of
  readings.
\<close>

datatype fetch_result =
  Fetch_rejected | Json_unparseable | Json_not_array | Json_readings "Reading list"

datatype console_entry = Console_log fetch_result | Console_error fetch_result

text \<open>
  The part of \<open>fetchReadings\<close> after the two \<open>await\<close>s. \<open>Array.prototype.sort\<close> is stable, and
  the comparator \<^verbatim>\<open>a.timestamp - b.timestamp\<close> orders by timestamp, ascending. Every
  failure is caught by the \<open>catch\<close> block, which only writes to the console.
\<close>

fun fetchReadings_settle :: "fetch_result \<Rightarrow> app_state \<Rightarrow> app_state \<times> console_entry list" where
  "fetchReadings_settle (Json_readings fetched) s =
     (let sortedReadings = sort_key timestamp fetched;
          s1 = s\<lparr>readings := sortedReadings\<rparr>;
          s2 = (if length sortedReadings > 0
                then s1\<lparr>currentReading := Some (sortedReadings ! (length sortedReadings - 1))\<rparr>
                else s1)
      in (s2, [Console_log (Json_readings fetched)]))"
| "fetchReadings_settle Json_not_array s = (s, [Console_log Json_not_array, Console_error Json_not_array])"
| "fetchReadings_settle Json_unparseable s = (s, [Console_error Json_unparseable])"
| "fetchReadings_settle Fetch_rejected s = (s, [Console_error Fetch_rejected])"

text \<open>
  The poller: the component state, the number of \<open>fetchReadings\<close> calls that have been
  started and have not settled, the number started so far, and the console.
  \<open>setInterval(fetchReadings, 1000)\<close> calls \<open>fetchReadings\<close> on every tick; the call sends
  its request at once. All callbacks run one at a time on the event loop, so a run of the
  client is a sequence of events.
\<close>

record poller =
  ui :: app_state
  pending :: nat
  started :: nat
  console :: "console_entry list"

datatype event = Tick | Settled fetch_result

definition fetchReadings_start :: "poller \<Rightarrow> poller" where
  "fetchReadings_start c = c\<lparr>pending := pending c + 1, started := started c + 1\<rparr>"

text \<open>The mount effect: one immediate call, then the interval.\<close>

definition mount :: poller where
  "mount = fetchReadings_start \<lparr>ui = app_init, pending = 0, started = 0, console = []\<rparr>"

fun step :: "poller \<Rightarrow> event \<Rightarrow> poller" where
  "step c Tick = fetchReadings_start c"
| "step c (Settled res) =
     (if pending c = 0 then c
      else (let (s, out) = fetchReadings_settle res (ui c)
            in c\<lparr>ui := s, pending := pending c - 1, console := console c @ out\<rparr>))"

definition run :: "poller \<Rightarrow> event list \<Rightarrow> poller" where
  "run c evs = foldl step c evs"

fun failed :: "fetch_result \<Rightarrow> bool" where
  "failed (Json_readings fetched) = False"
| "failed _ = True"

text \<open>
  \<open>onScrubChange\<close>: the callback handed to the Scrubber. \<open>reduce\<close> without an initial value
  starts from the first element and throws a \<open>TypeError\<close> on an empty array; the state
  update made before the throw stays. A comparison with \<open>NaN\<close> is false. Timestamps and
  the target are whole numbers of milliseconds, whose differences are computed exactly.
\<close>

datatype js_error = TypeError

fun reduce :: "('a \<Rightarrow> 'a \<Rightarrow> 'a) \<Rightarrow> 'a list \<Rightarrow> js_error + 'a" where
  "reduce f [] = Inl TypeError"
| "reduce f (x # xs) = Inr (foldl f x xs)"

definition closer :: "int option \<Rightarrow> Reading \<Rightarrow> Reading \<Rightarrow> Reading" where
  "closer target prev cur =
     (case target of
        None \<Rightarrow> prev
      | Some t \<Rightarrow> (if \<bar>timestamp cur - t\<bar> < \<bar>timestamp prev - t\<bar> then cur else prev))"

definition closestReading :: "Reading list \<Rightarrow> int option \<Rightarrow> js_error + Reading" where
  "closestReading rs target = reduce (closer target) rs"

definition onScrubChange :: "jsdate \<Rightarrow> app_state \<Rightarrow> app_state \<times> js_error option" where
  "onScrubChange newTime s =
     (let s1 = s\<lparr>selectedTime := Some (getTime newTime)\<rparr>
      in case closestReading (readings s) (getTime newTime) of
           Inl err \<Rightarrow> (s1, Some err)
         | Inr closest \<Rightarrow> (s1\<lparr>currentReading := Some closest\<rparr>, None))"

text \<open>The Scrubber has an active manual selection once a time has been selected.\<close>

definition manual_selection :: "app_state \<Rightarrow> bool" where
  "manual_selection s = (selectedTime s \<noteq> None)"


section \<open>Example values\<close>

text \<open>A reading that carries nothing but its timestamp.\<close>

definition reading_at :: "int \<Rightarrow> Reading" where
  "reading_at ts =
     \<lparr>latitude = Null, longitude = Null, timestamp = ts, altitude = Null, status = Null,
      estimated_arrival_time = Null, scheduled_departure_time = Null,
      distance_to_destination = Null, distance_from_origin = Null, distance_traveled = Null,
      outside_air_temperature = Null, ground_speed = Null, wind_speed = Null,
      wind_direction = Null, true_heading = Null, time_to_destination_minutes = Null,
      total_flight_time_minutes = Null, state = Null, decompression = Null,
      all_doors_closed = Null, weight_on_wheels = Null, departure_airport = Null,
      destination_airport = Null, flight_number = Null, aircraft_type = Null,
      flight_phase = Null\<rparr>"

text \<open>
  A host for evaluating examples. It prints whole numbers in decimal, as JavaScript does,
  and is only used on readings whose numbers are whole and whose rows need no cosine.
\<close>

fun digits :: "nat \<Rightarrow> string" where
  "digits n = (if n < 10 then [''0123456789'' ! n]
               else digits (n div 10) @ [''0123456789'' ! (n mod 10)])"

declare digits.simps [simp del]

definition decimal :: "real \<Rightarrow> string" where
  "decimal x = (if x < 0 then ''-'' else []) @ digits (nat \<lfloor>\<bar>x\<bar>\<rfloor>)"

definition whole_number_host :: host where
  "whole_number_host =
     \<lparr>Math_cos = cos,
      number_toString = decimal,
      toFixed = (\<lambda>x d. decimal x @ (if d = 0 then [] else ''.'' @ replicate d (CHR ''0''))),
      time_now = ''12:00:00'',
      toLocaleTimeString = (\<lambda>s. s)\<rparr>"

definition props_1000_2000 :: scrubber_props where
  "props_1000_2000 = \<lparr>currentTime = None, startTime = Some 1000, estimatedEndTime = Some 2000\<rparr>"

definition bar_3 :: dom_rect where
  "bar_3 = \<lparr>rect_left = 0, rect_width = 3\<rparr>"

definition props_1_101 :: scrubber_props where
  "props_1_101 = \<lparr>currentTime = None, startTime = Some 1, estimatedEndTime = Some 101\<rparr>"

definition bar_100 :: dom_rect where
  "bar_100 = \<lparr>rect_left = 0, rect_width = 100\<rparr>"

definition bar_0 :: dom_rect where
  "bar_0 = \<lparr>rect_left = 0, rect_width = 0\<rparr>"


definition props_2000_1000 :: scrubber_props where
  "props_2000_1000 = \<lparr>currentTime = None, startTime = Some 2000, estimatedEndTime = Some 1000\<rparr>"

definition dragging :: scrubber_state where
  "dragging = \<lparr>isDragging = True, progress = Some 50\<rparr>"


text \<open>The distance of a reading's timestamp from a target time.\<close>

definition dist_to :: "int \<Rightarrow> Reading \<Rightarrow> int" where
  "dist_to t r = \<bar>timestamp r - t\<bar>"

definition three_readings :: app_state where
  "three_readings = \<lparr>readings = [reading_at 100, reading_at 200, reading_at 300],
      currentReading = Some (reading_at 300), selectedTime = None\<rparr>"

text \<open>Wind speed zero from the east, and a wind of 20 from due north, both heading east.\<close>

definition still_air :: Reading where
  "still_air = (reading_at 0)\<lparr>wind_speed := Present 0, wind_direction := Present 90,
     true_heading := Present 90\<rparr>"

definition north_wind :: Reading where
  "north_wind = (reading_at 0)\<lparr>wind_speed := Present 20, wind_direction := Present 0,
     true_heading := Present 90\<rparr>"

text \<open>The earliest start a \<open>Date\<close> can hold, and an end one millisecond before the latest.\<close>

definition props_wide :: scrubber_props where
  "props_wide = \<lparr>currentTime = None, startTime = Some (- 8640000000000000),
     estimatedEndTime = Some 8639999999999999\<rparr>"

section \<open>Properties of the double arithmetic\<close>

lemma rhe_of_int [simp]: "round_half_even (of_int n) = n"
  by (simp add: round_half_even_def)

lemma rhe_bounds: "\<lfloor>y\<rfloor> \<le> round_half_even y \<and> round_half_even y \<le> \<lfloor>y\<rfloor> + 1"
  by (simp add: round_half_even_def Let_def)

lemma rhe_mono:
  assumes "y \<le> z"
  shows "round_half_even y \<le> round_half_even z"
proof (cases "\<lfloor>y\<rfloor> = \<lfloor>z\<rfloor>")
  case True
  with assms show ?thesis
    by (auto simp: round_half_even_def Let_def)
next
  case False
  with assms have "\<lfloor>y\<rfloor> < \<lfloor>z\<rfloor>"
    by (simp add: floor_mono order.not_eq_order_implies_strict)
  then show ?thesis
    using rhe_bounds [of y] rhe_bounds [of z] by linarith
qed

lemma rhe_le: "y \<le> of_int n \<Longrightarrow> round_half_even y \<le> n"
  using rhe_mono [of y "of_int n"] by simp

lemma rhe_ge: "of_int n \<le> y \<Longrightarrow> n \<le> round_half_even y"
  using rhe_mono [of "of_int n" y] by simp

lemma ulp_pos [simp]: "0 < ulp x"
  by (simp add: ulp_def)

lemma ulp_nonneg [simp]: "0 \<le> ulp x"
  by (simp add: ulp_def)

lemma ulp_neq0 [simp]: "ulp x \<noteq> 0"
  by (simp add: ulp_def)

lemma fl_0 [simp]: "fl 0 = 0"
  by (simp add: fl_def)

lemma binade_uminus [simp]: "binade (- x) = binade x"
  by (simp add: binade_def)

lemma fl_uminus: "fl (- x) = - fl x"
  by (simp add: fl_def ulp_def sgn_minus)

lemma fl_nonneg:
  assumes "0 \<le> x"
  shows "0 \<le> fl x"
proof -
  have "0 \<le> \<bar>x\<bar> / ulp x"
    by (intro divide_nonneg_nonneg) simp_all
  then have "0 \<le> round_half_even (\<bar>x\<bar> / ulp x)"
    using rhe_ge [of 0 "\<bar>x\<bar> / ulp x"] by simp
  then show ?thesis
    using assms by (simp add: fl_def sgn_if)
qed

lemma binade_mono: "0 < x \<Longrightarrow> x \<le> y \<Longrightarrow> binade x \<le> binade y"
  unfolding binade_def by (intro max.mono floor_mono) simp_all

lemma below_next_binade:
  assumes "0 < x"
  shows "x < 2 powr (of_int (binade x) + 1)"
proof -
  have "log 2 x < of_int \<lfloor>log 2 x\<rfloor> + 1"
    by linarith
  also have "\<dots> \<le> of_int (binade x) + 1"
    using assms by (simp add: binade_def)
  finally have "log 2 x < of_int (binade x) + 1" .
  then show ?thesis
    using assms by (simp add: log_less_iff)
qed

lemma above_binade:
  assumes "0 < x" "- 1022 < binade x"
  shows "2 powr of_int (binade x) \<le> x"
proof -
  from assms have "binade x = \<lfloor>log 2 x\<rfloor>"
    by (simp add: binade_def max_def split: if_splits)
  then have "of_int (binade x) \<le> log 2 x"
    by simp
  then show ?thesis
    using assms(1) by (simp add: le_log_iff)
qed

lemma fl_pos_eq: "0 < x \<Longrightarrow> fl x = of_int (round_half_even (x / ulp x)) * ulp x"
  by (simp add: fl_def)

lemma fl_le_top:
  assumes "0 < x"
  shows "fl x \<le> 2 powr (of_int (binade x) + 1)"
proof -
  have "x / ulp x < 2 powr (of_int (binade x) + 1) / ulp x"
    using below_next_binade [OF assms] by (simp add: divide_strict_right_mono)
  also have "2 powr (of_int (binade x) + 1) / ulp x = 2 powr 53"
    by (simp add: ulp_def powr_diff [symmetric])
  also have "(2::real) powr 53 = of_int (2 ^ 53)"
    by simp
  finally have "round_half_even (x / ulp x) \<le> 2 ^ 53"
    using rhe_le [of "x / ulp x" "2 ^ 53"] by simp
  then have "of_int (round_half_even (x / ulp x)) * ulp x \<le> of_int (2 ^ 53) * ulp x"
    by (intro mult_right_mono) (simp_all del: of_int_power)
  also have "of_int (2 ^ 53) * ulp x = 2 powr 53 * ulp x"
    by simp
  also have "\<dots> = 2 powr (of_int (binade x) + 1)"
    unfolding ulp_def powr_add [symmetric] by (rule arg_cong) simp
  finally show ?thesis
    using assms by (simp add: fl_pos_eq)
qed

lemma fl_ge_bottom:
  assumes "0 < x" "- 1022 < binade x"
  shows "2 powr of_int (binade x) \<le> fl x"
proof -
  have "2 powr of_int (binade x) / ulp x \<le> x / ulp x"
    using above_binade [OF assms] by (intro divide_right_mono) simp_all
  moreover have "2 powr of_int (binade x) / ulp x = 2 powr 52"
    by (simp add: ulp_def powr_diff [symmetric])
  moreover have "(2::real) powr 52 = of_int (2 ^ 52)"
    by simp
  ultimately have r: "2 ^ 52 \<le> round_half_even (x / ulp x)"
    using rhe_ge [of "2 ^ 52" "x / ulp x"] by simp
  have "2 powr of_int (binade x) = 2 powr 52 * ulp x"
    unfolding ulp_def powr_add [symmetric] by (rule arg_cong) simp
  also have "\<dots> = of_int (2 ^ 52) * ulp x"
    by simp
  also have "\<dots> \<le> of_int (round_half_even (x / ulp x)) * ulp x"
    using r by (intro mult_right_mono) (simp_all del: of_int_power)
  finally show ?thesis
    using assms by (simp add: fl_pos_eq)
qed

lemma fl_mono_pos:
  assumes "0 < x" "x \<le> y"
  shows "fl x \<le> fl y"
proof (cases "binade x = binade y")
  case True
  then have u: "ulp x = ulp y"
    by (simp add: ulp_def)
  have "x / ulp y \<le> y / ulp y"
    using assms by (intro divide_right_mono) simp_all
  then have "round_half_even (x / ulp y) \<le> round_half_even (y / ulp y)"
    by (rule rhe_mono)
  then have "of_int (round_half_even (x / ulp y)) * ulp y
             \<le> of_int (round_half_even (y / ulp y)) * ulp y"
    by (intro mult_right_mono) simp_all
  then show ?thesis
    using assms u by (simp add: fl_pos_eq)
next
  case False
  with binade_mono [OF assms] have lt: "binade x < binade y"
    by simp
  have "- 1022 \<le> binade x"
    by (simp add: binade_def)
  with lt have n: "- 1022 < binade y"
    by simp
  have y: "0 < y"
    using assms by simp
  have "fl x \<le> 2 powr (of_int (binade x) + 1)"
    by (rule fl_le_top [OF assms(1)])
  also have "\<dots> = 2 powr of_int (binade x + 1)"
    by simp
  also have "\<dots> \<le> 2 powr of_int (binade y)"
    using lt by (intro powr_mono) simp_all
  also have "\<dots> \<le> fl y"
    by (rule fl_ge_bottom [OF y n])
  finally show ?thesis .
qed

text \<open>Rounding is monotone.\<close>

lemma fl_mono:
  assumes "x \<le> y"
  shows "fl x \<le> fl y"
proof -
  consider "0 < x" | "x \<le> 0" "0 \<le> y" | "y < 0"
    by linarith
  then show ?thesis
  proof cases
    case 1
    then show ?thesis
      using assms by (rule fl_mono_pos)
  next
    case 2
    have "fl x \<le> 0"
      using fl_nonneg [of "- x"] 2(1) by (simp add: fl_uminus)
    with fl_nonneg [OF 2(2)] show ?thesis
      by simp
  next
    case 3
    then have "0 < - y" "- y \<le> - x"
      using assms by simp_all
    then have "fl (- y) \<le> fl (- x)"
      by (rule fl_mono_pos)
    then show ?thesis
      by (simp add: fl_uminus)
  qed
qed

lemma fl_exact:
  assumes "\<bar>x\<bar> = of_int k * ulp x"
  shows "fl x = x"
proof -
  have "\<bar>x\<bar> / ulp x = of_int k"
    using assms by simp
  then have "fl x = sgn x * (of_int k * ulp x)"
    by (simp add: fl_def)
  also have "\<dots> = sgn x * \<bar>x\<bar>"
    using assms by simp
  also have "\<dots> = x"
    by (simp add: sgn_if)
  finally show ?thesis .
qed

text \<open>Every whole number of magnitude up to \<open>2 ^ 53\<close> is a double.\<close>

lemma fl_of_int:
  assumes "\<bar>n\<bar> \<le> 2 ^ 53"
  shows "fl (of_int n) = of_int n"
proof (cases "n = 0")
  case True
  then show ?thesis by simp
next
  case False
  let ?a = "real_of_int \<bar>n\<bar>"
  have a1: "1 \<le> ?a"
    using False by linarith
  have a53: "?a \<le> 2 ^ 53"
    using assms by (metis of_int_le_iff of_int_numeral of_int_power)
  have l0: "0 \<le> log 2 ?a"
    using a1 by simp
  have "?a \<le> 2 powr 53"
    using a53 by simp
  then have l53: "log 2 ?a \<le> 53"
    using a1 by (subst log_le_iff) simp_all
  define b where "b = \<lfloor>log 2 ?a\<rfloor>"
  have b0: "0 \<le> b" and b53: "b \<le> 53"
    using l0 l53 unfolding b_def by (simp_all add: floor_le_iff le_floor_iff)
  have bin: "binade (of_int n) = b"
    using b0 by (simp add: binade_def b_def)
  have u: "ulp (of_int n) = 2 powr (of_int b - 52)"
    by (simp add: ulp_def bin)
  show ?thesis
  proof (cases "b = 53")
    case True
    then have "53 \<le> log 2 ?a"
      unfolding b_def by linarith
    then have "2 powr 53 \<le> ?a"
      using a1 by (subst (asm) le_log_iff) simp_all
    with a53 have "?a = 2 powr 53"
      by simp
    moreover have "ulp (of_int n) = 2"
      using u True by simp
    ultimately have "\<bar>real_of_int n\<bar> = of_int (2 ^ 52) * ulp (of_int n)"
      by simp
    then show ?thesis
      by (rule fl_exact)
  next
    case False
    with b53 have le: "b \<le> 52"
      by simp
    define j where "j = nat (52 - b)"
    have "ulp (of_int n) * 2 ^ j = 2 powr (of_int b - 52) * 2 powr (of_nat j)"
      by (simp add: u powr_realpow)
    also have "\<dots> = 2 powr (of_int b - 52 + of_nat j)"
      by (simp add: powr_add)
    also have "of_int b - 52 + of_nat j = (0::real)"
      using le by (simp add: j_def)
    finally have "ulp (of_int n) * 2 ^ j = 1"
      by simp
    then have "\<bar>real_of_int n\<bar> = of_int (\<bar>n\<bar> * 2 ^ j) * ulp (of_int n)"
      by (simp add: mult.assoc mult.commute)
    then show ?thesis
      by (rule fl_exact)
  qed
qed

lemma fl_1 [simp]: "fl 1 = 1"
  using fl_of_int [of 1] by simp

lemma fl_numeral [simp]: "(numeral k :: int) \<le> 2 ^ 53 \<Longrightarrow> fl (numeral k) = numeral k"
  using fl_of_int [of "numeral k"] by simp

text \<open>The rounding of a positive number whose binade is known.\<close>

lemma fl_at:
  assumes "0 < x" "2 powr of_int k \<le> x" "x < 2 powr (of_int k + 1)" "- 1022 \<le> k"
  shows "fl x = of_int (round_half_even (x / 2 powr (of_int k - 52))) * 2 powr (of_int k - 52)"
proof -
  have "of_int k \<le> log 2 x"
    using assms(1,2) by (simp add: le_log_iff)
  moreover have "log 2 x < of_int k + 1"
    using assms(1,3) by (simp add: log_less_iff)
  ultimately have "\<lfloor>log 2 x\<rfloor> = k"
    by linarith
  then have "binade x = k"
    using assms(1,4) by (simp add: binade_def)
  then show ?thesis
    using assms(1) by (simp add: fl_pos_eq ulp_def)
qed


section \<open>Properties of the wind component\<close>











section \<open>Properties of the Scrubber\<close>

lemma js_trunc_of_int [simp]: "js_trunc (real_of_int n) = n"
  by (simp add: js_trunc_def)

lemma js_trunc_between:
  "real_of_int a \<le> x \<Longrightarrow> x \<le> real_of_int b \<Longrightarrow> a \<le> js_trunc x \<and> js_trunc x \<le> b"
  unfolding js_trunc_def by (auto simp: le_floor_iff ceiling_le_iff) linarith+

lemma valid_time_cases:
  "valid_time t = None \<or> (\<exists>n. t = Some n \<and> n \<noteq> 0 \<and> valid_time t = Some n)"
  by (cases t) (auto simp: valid_time_def)

lemma valid_time_Some:
  "n \<noteq> 0 \<Longrightarrow> \<bar>n\<bar> \<le> 8640000000000000 \<Longrightarrow> valid_time (Some n) = Some n"
  by (auto simp: valid_time_def)

lemma valid_time_SomeD: "valid_time t = Some n \<Longrightarrow> t = Some n \<and> n \<noteq> 0"
  using valid_time_cases [of t] by auto

lemma valid_time_range: "valid_time t = Some n \<Longrightarrow> \<bar>n\<bar> \<le> 8640000000000000"
  by (cases t) (auto simp: valid_time_def split: if_splits)

lemma totalDuration_nonzeroD:
  "totalDuration p \<noteq> 0 \<Longrightarrow>
   \<exists>s e. startTime p = Some s \<and> estimatedEndTime p = Some e \<and> validStartTime p = Some s
     \<and> validEndTime p = Some e \<and> totalDuration p = js_sub (real_of_int e) (real_of_int s)"
  unfolding totalDuration_def validStartTime_def validEndTime_def
  by (auto split: option.splits if_splits dest: valid_time_SomeD)

lemma js_sub_nonpos: "a \<le> b \<Longrightarrow> js_sub a b \<le> 0"
  using fl_mono [of "a - b" 0] by (simp add: js_sub_def)

lemma degenerate_duration: "degenerate p \<Longrightarrow> totalDuration p \<le> 0"
  using totalDuration_nonzeroD [of p]
  by (cases "totalDuration p = 0") (auto simp: degenerate_def intro!: js_sub_nonpos)

lemma degenerate_render: "degenerate p \<Longrightarrow> FlightScrubber p st = None"
  using degenerate_duration [of p]
  by (auto simp: FlightScrubber_def split: option.splits)

text \<open>The duration of two whole times at most \<open>2 ^ 53\<close> apart is exact.\<close>

lemma duration_exact:
  assumes "s < e" "e - s \<le> 2 ^ 53"
  shows "js_sub (real_of_int e) (real_of_int s) = real_of_int (e - s)"
  using assms fl_of_int [of "e - s"] by (simp add: js_sub_def)

lemma fl_unit: "0 \<le> x \<Longrightarrow> x \<le> 1 \<Longrightarrow> 0 \<le> fl x \<and> fl x \<le> 1"
  using fl_mono [of 0 x] fl_mono [of x 1] by simp

lemma clamp_x_quotient:
  assumes "rect_width rect \<noteq> 0"
  shows "0 \<le> clamp_x rect cx / rect_width rect \<and> clamp_x rect cx / rect_width rect \<le> 1"
  using assms by (auto simp: clamp_x_def min_def max_def divide_simps)

lemma drag_position_unit:
  "rect_width rect \<noteq> 0 \<Longrightarrow> 0 \<le> drag_position rect cx \<and> drag_position rect cx \<le> 1"
  using clamp_x_quotient [of rect cx] fl_unit by (simp add: drag_position_def js_div_def)

lemma drag_position_left:
  assumes "0 < rect_width rect" "js_sub cx (rect_left rect) \<le> 0"
  shows "drag_position rect cx = 0"
  using assms by (simp add: drag_position_def js_div_def clamp_x_def)

lemma drag_position_right:
  assumes "0 < rect_width rect" "rect_width rect \<le> js_sub cx (rect_left rect)"
  shows "drag_position rect cx = 1"
  using assms by (simp add: drag_position_def js_div_def clamp_x_def)

text \<open>
  The time computed for a position in \<open>[0,1]\<close> lies between the start and the end, and the
  two ends of the interval are hit exactly.
\<close>

lemma scrub_time_bounds:
  assumes q: "0 \<le> q" "q \<le> 1" and d: "0 \<le> d" "d \<le> 2 ^ 53"
    and s: "\<bar>s\<bar> \<le> 2 ^ 53" "\<bar>s + d\<bar> \<le> 2 ^ 53"
  shows "real_of_int s \<le> scrub_time s (real_of_int d) q"
    and "scrub_time s (real_of_int d) q \<le> real_of_int (s + d)"
proof -
  let ?pr = "fl (q * 100)"
  let ?r = "fl (?pr / 100)"
  let ?t = "fl (real_of_int d * ?r)"
  have fd: "fl (real_of_int d) = real_of_int d"
    using d by (intro fl_of_int) simp
  have pr: "0 \<le> ?pr" "?pr \<le> 100"
    using fl_mono [of 0 "q * 100"] fl_mono [of "q * 100" 100] q by simp_all
  then have "0 \<le> ?pr / 100" "?pr / 100 \<le> 1"
    by simp_all
  then have r: "0 \<le> ?r" "?r \<le> 1"
    using fl_unit by simp_all
  have "0 \<le> real_of_int d * ?r"
    using r d by simp
  moreover have "real_of_int d * ?r \<le> real_of_int d * 1"
    using r d by (intro mult_left_mono) simp_all
  ultimately have t: "0 \<le> ?t" "?t \<le> real_of_int d"
    using fl_mono [of 0 "real_of_int d * ?r"] fl_mono [of "real_of_int d * ?r" "real_of_int d"] fd
    by simp_all
  have "fl (real_of_int s) \<le> fl (real_of_int s + ?t)"
    using t by (intro fl_mono) simp
  moreover have "fl (real_of_int s + ?t) \<le> fl (real_of_int (s + d))"
    using t by (intro fl_mono) simp
  moreover have "fl (real_of_int s) = real_of_int s"
    using s by (intro fl_of_int)
  moreover have "fl (real_of_int (s + d)) = real_of_int (s + d)"
    using s by (intro fl_of_int)
  ultimately show "real_of_int s \<le> scrub_time s (real_of_int d) q"
    and "scrub_time s (real_of_int d) q \<le> real_of_int (s + d)"
    by (simp_all add: scrub_time_def js_add_def js_mul_def js_div_def)
qed

lemma scrub_time_0:
  assumes "\<bar>s\<bar> \<le> 2 ^ 53"
  shows "scrub_time s d 0 = real_of_int s"
  using fl_of_int [OF assms] by (simp add: scrub_time_def js_add_def js_mul_def js_div_def)

lemma scrub_time_1:
  assumes "\<bar>d\<bar> \<le> 2 ^ 53" "\<bar>s + d\<bar> \<le> 2 ^ 53"
  shows "scrub_time s (real_of_int d) 1 = real_of_int (s + d)"
  using fl_of_int [OF assms(1)] fl_of_int [OF assms(2)]
  by (simp add: scrub_time_def js_add_def js_mul_def js_div_def)

lemma handleScrub_emits:
  assumes "validStartTime p = Some s" "s \<noteq> 0" "totalDuration p = d" "d \<noteq> 0"
    "rect_width rect \<noteq> 0"
  shows "snd (handleScrub p (Some rect) cx st)
         = Some (new_Date (Some (scrub_time s d (drag_position rect cx))))"
  using assms by (simp add: handleScrub_def Let_def drag_position_def scrub_time_def)

text \<open>What \<open>handleScrub\<close> emits for valid times at most \<open>2 ^ 53\<close> milliseconds apart.\<close>

lemma handleScrub_valid:
  assumes vs: "validStartTime p = Some s" and ve: "validEndTime p = Some e"
    and lt: "s < e" and span: "e - s \<le> 2 ^ 53" and w: "rect_width rect \<noteq> 0"
  shows "snd (handleScrub p (Some rect) cx st)
         = Some (Date_ms (js_trunc (scrub_time s (real_of_int (e - s)) (drag_position rect cx))))"
    and "real_of_int s \<le> scrub_time s (real_of_int (e - s)) (drag_position rect cx)"
    and "scrub_time s (real_of_int (e - s)) (drag_position rect cx) \<le> real_of_int e"
proof -
  let ?x = "scrub_time s (real_of_int (e - s)) (drag_position rect cx)"
  from vs have nz: "s \<noteq> 0"
    by (auto simp: validStartTime_def dest: valid_time_SomeD)
  from ve have nze: "e \<noteq> 0"
    by (auto simp: validEndTime_def dest: valid_time_SomeD)
  have rs: "\<bar>s\<bar> \<le> 8640000000000000" and re: "\<bar>e\<bar> \<le> 8640000000000000"
    using vs ve by (auto simp: validStartTime_def validEndTime_def dest: valid_time_range)
  have d: "totalDuration p = real_of_int (e - s)"
    using vs ve nz nze duration_exact [OF lt span] by (simp add: totalDuration_def)
  have s53: "\<bar>s\<bar> \<le> 2 ^ 53" and e53: "\<bar>s + (e - s)\<bar> \<le> 2 ^ 53"
    using rs re by simp_all
  have d0: "0 \<le> e - s"
    using lt by simp
  note q = drag_position_unit [OF w, of cx]
  note b = scrub_time_bounds [of "drag_position rect cx" "e - s" s, OF _ _ d0 span s53 e53]
  show lo: "real_of_int s \<le> ?x"
    using b(1) q by simp
  show hi: "?x \<le> real_of_int e"
    using b(2) q by simp
  have "\<bar>?x\<bar> \<le> 8640000000000000"
    using lo hi rs re by linarith
  then have nd: "new_Date (Some ?x) = Date_ms (js_trunc ?x)"
    by simp
  have dn: "real_of_int (e - s) \<noteq> 0"
    using lt by simp
  show "snd (handleScrub p (Some rect) cx st) = Some (Date_ms (js_trunc ?x))"
    using handleScrub_emits [OF vs nz d dn w, of cx st] nd by simp
qed

lemma props_1_101_valid:
  "validStartTime props_1_101 = Some 1" "validEndTime props_1_101 = Some 101"
  "totalDuration props_1_101 = 100"
  by (simp_all add: props_1_101_def validStartTime_def validEndTime_def valid_time_def
      totalDuration_def js_trunc_def js_sub_def)

lemma props_1000_2000_valid:
  "validStartTime props_1000_2000 = Some 1000" "validEndTime props_1000_2000 = Some 2000"
  "totalDuration props_1000_2000 = 1000"
  by (simp_all add: props_1000_2000_def validStartTime_def validEndTime_def valid_time_def
      totalDuration_def js_trunc_def js_sub_def)

text \<open>
  A pointer 29 pixels into a bar of 100 pixels, for a flight from 1 to 101: the roundings
  of the quotient 0.29, of the progress, of the quotient by 100, of the product and of the
  sum, one after the other.
\<close>

lemma fl_29_quotient: "fl (29 / 100) = 5224175567749775 / 18014398509481984"
  by (subst fl_at [where k = "- 2"]) (simp_all add: round_half_even_def powr_minus_divide)

lemma fl_29_progress:
  "fl (5224175567749775 / 18014398509481984 * 100) = 8162774324609023 / 281474976710656"
  by (subst fl_at [where k = 4]) (simp_all add: round_half_even_def powr_minus_divide)

lemma fl_29_fraction:
  "fl (8162774324609023 / 281474976710656 / 100) = 5224175567749775 / 18014398509481984"
  by (subst fl_at [where k = "- 2"]) (simp_all add: round_half_even_def powr_minus_divide)

lemma fl_29_product:
  "fl (100 * (5224175567749775 / 18014398509481984)) = 8162774324609023 / 281474976710656"
  by (subst fl_at [where k = 4]) (simp_all add: round_half_even_def powr_minus_divide)

lemma fl_29_sum:
  "fl (1 + 8162774324609023 / 281474976710656) = 8444249301319679 / 281474976710656"
  by (subst fl_at [where k = 4]) (simp_all add: round_half_even_def powr_minus_divide)

lemma drag_position_29: "drag_position bar_100 29 = 5224175567749775 / 18014398509481984"
  by (simp add: drag_position_def clamp_x_def bar_100_def js_sub_def js_div_def fl_29_quotient)

lemma scrub_time_29:
  "scrub_time 1 100 (5224175567749775 / 18014398509481984) = 8444249301319679 / 281474976710656"
  by (simp only: scrub_time_def js_add_def js_mul_def js_div_def fl_29_progress fl_29_fraction
      fl_29_product fl_29_sum of_int_1)

text \<open>
  C6, as stated, fails. On a bar 100 pixels wide, a pointer 29 pixels from its left edge is
  the drag position 0.29; with start 1 and estimated end 101 the emitted \<open>Date\<close> holds 29
  milliseconds, which is not \<open>1 + 0.29 * (101 - 1)\<close>.
\<close>

theorem scrub_time_not_exact:
  "snd (handleScrub props_1_101 (Some bar_100) 29 scrubber_init) = Some (Date_ms 29)
   \<and> real_of_int 29 \<noteq> 1 + (29 / 100) * (101 - 1)
   \<and> real_of_int 29 \<noteq> 1 + drag_position bar_100 29 * (101 - 1)"
proof -
  have "snd (handleScrub props_1_101 (Some bar_100) 29 scrubber_init)
        = Some (new_Date (Some (scrub_time 1 100 (drag_position bar_100 29))))"
    by (rule handleScrub_emits) (simp_all add: props_1_101_valid bar_100_def)
  then show ?thesis
    by (simp add: drag_position_29 scrub_time_29 js_trunc_def)
qed

text \<open>
  C6, amended. For start and estimated end both present, non-zero and within the range of
  \<open>Date\<close>, with the end after the start and at most \<open>2 ^ 53\<close> milliseconds after it, and a bar
  of positive width: the emitted time is \<open>start + p * (estimated_end - start)\<close> as the code
  evaluates it in double arithmetic, \<open>start + (duration * ((p * 100) / 100))\<close> with every
  operation rounded, then truncated towards zero to a whole millisecond, where \<open>p\<close> is the
  rounded drag position. Position 0, which is every pointer at or left of the left edge,
  emits exactly the start; position 1, every pointer at or right of the right edge, emits
  exactly the estimated end.
\<close>

theorem scrub_time_rounded:
  assumes st: "startTime p = Some s" and en: "estimatedEndTime p = Some e"
    and nz: "s \<noteq> 0" "e \<noteq> 0"
    and rng: "\<bar>s\<bar> \<le> 8640000000000000" "\<bar>e\<bar> \<le> 8640000000000000"
    and lt: "s < e" and span: "e - s \<le> 2 ^ 53" and w: "0 < rect_width rect"
  shows "snd (handleScrub p (Some rect) clientX st)
           = Some (Date_ms (js_trunc (scrub_time s (real_of_int (e - s)) (drag_position rect clientX))))
         \<and> scrub_time s (real_of_int (e - s)) 0 = real_of_int s
         \<and> scrub_time s (real_of_int (e - s)) 1 = real_of_int e
         \<and> (drag_position rect clientX = 0
              \<longrightarrow> snd (handleScrub p (Some rect) clientX st) = Some (Date_ms s))
         \<and> (drag_position rect clientX = 1
              \<longrightarrow> snd (handleScrub p (Some rect) clientX st) = Some (Date_ms e))
         \<and> (js_sub clientX (rect_left rect) \<le> 0 \<longrightarrow> drag_position rect clientX = 0)
         \<and> (rect_width rect \<le> js_sub clientX (rect_left rect) \<longrightarrow> drag_position rect clientX = 1)"
proof -
  have vs: "validStartTime p = Some s" and ve: "validEndTime p = Some e"
    using st en nz rng by (simp_all add: validStartTime_def validEndTime_def valid_time_Some)
  from w have w': "rect_width rect \<noteq> 0"
    by simp
  note em = handleScrub_valid(1) [OF vs ve lt span w', of clientX st]
  have s53: "\<bar>s\<bar> \<le> 2 ^ 53" and d53: "\<bar>e - s\<bar> \<le> 2 ^ 53" and e53: "\<bar>s + (e - s)\<bar> \<le> 2 ^ 53"
    using rng lt span by simp_all
  have t0: "scrub_time s (real_of_int (e - s)) 0 = real_of_int s"
    by (rule scrub_time_0 [OF s53])
  have t1: "scrub_time s (real_of_int (e - s)) 1 = real_of_int e"
    using scrub_time_1 [OF d53 e53] by simp
  have e0: "drag_position rect clientX = 0
            \<longrightarrow> snd (handleScrub p (Some rect) clientX st) = Some (Date_ms s)"
    using em t0 by simp
  have e1: "drag_position rect clientX = 1
            \<longrightarrow> snd (handleScrub p (Some rect) clientX st) = Some (Date_ms e)"
    using em t1 by simp
  show ?thesis
    using em t0 t1 e0 e1 drag_position_left [OF w] drag_position_right [OF w] by blast
qed

theorem scrub_time_rounded_witness:
  "snd (handleScrub props_1_101 (Some bar_100) 29 scrubber_init) = Some (Date_ms 29)
   \<and> drag_position bar_100 0 = 0
   \<and> snd (handleScrub props_1_101 (Some bar_100) 0 scrubber_init) = Some (Date_ms 1)
   \<and> drag_position bar_100 100 = 1
   \<and> snd (handleScrub props_1_101 (Some bar_100) 100 scrubber_init) = Some (Date_ms 101)"
proof -
  have p0: "drag_position bar_100 0 = 0" and p1: "drag_position bar_100 100 = 1"
    by (simp_all add: drag_position_def clamp_x_def bar_100_def js_sub_def js_div_def)
  have h: "startTime props_1_101 = Some 1" "estimatedEndTime props_1_101 = Some 101"
    "0 < rect_width bar_100"
    by (simp_all add: props_1_101_def bar_100_def)
  note t = scrub_time_rounded [OF h(1) h(2) _ _ _ _ _ _ h(3), of _ scrubber_init]
  have "snd (handleScrub props_1_101 (Some bar_100) 29 scrubber_init) = Some (Date_ms 29)"
    using t [of 29] by (simp add: drag_position_29 scrub_time_29 js_trunc_def)
  moreover have "snd (handleScrub props_1_101 (Some bar_100) 0 scrubber_init) = Some (Date_ms 1)"
    using t [of 0] p0 by (simp add: js_trunc_def)
  moreover have "snd (handleScrub props_1_101 (Some bar_100) 100 scrubber_init) = Some (Date_ms 101)"
    using t [of 100] p1 by (simp add: js_trunc_def)
  ultimately show ?thesis
    using p0 p1 by simp
qed

text \<open>
  C7. Whenever the start or the estimated end is absent, or the estimated end is not after
  the start, the Scrubber renders nothing and no pointer event makes it call
  \<open>onScrubChange\<close>: neither \<open>handleScrub\<close> (whose bar reference is then empty) for any pointer
  coordinate, nor any mouse-down, mouse-move or mouse-up, in any component state.
\<close>

theorem scrubber_inert:
  assumes "degenerate p"
  shows "FlightScrubber p st = None
    \<and> snd (handleScrub p (scrubberRef p st rect) clientX st) = None
    \<and> snd (scrubber_event p rect ev st) = None"
proof -
  have r: "FlightScrubber p st' = None" for st'
    using assms by (rule degenerate_render)
  have ref: "scrubberRef p st' rect = None" for st'
    by (simp add: scrubberRef_def r)
  have hs: "handleScrub p None cx st' = (st', None)" for cx st'
    by (simp add: handleScrub_def)
  have "snd (scrubber_event p rect ev st) = None"
    by (cases ev) (simp_all add: r ref hs handleMouseMove_def handleMouseUp_def)
  with r ref hs show ?thesis by simp
qed

theorem scrubber_inert_witness:
  "degenerate props_2000_1000
   \<and> FlightScrubber props_2000_1000 dragging = None
   \<and> snd (handleScrub props_2000_1000 (scrubberRef props_2000_1000 dragging bar_3) 1 dragging) = None
   \<and> snd (scrubber_event props_2000_1000 bar_3 (MouseMove 1) dragging) = None"
proof -
  have d: "degenerate props_2000_1000"
    by (simp add: degenerate_def props_2000_1000_def)
  show ?thesis
    using d scrubber_inert [OF d, of dragging bar_3 1 "MouseMove 1"] by simp
qed

text \<open>
  C10, as stated, fails. For a bar of width zero the clamped offset is zero, the quotient
  is \<open>0 / 0\<close>, and \<open>handleScrub\<close> hands an invalid \<open>Date\<close>, which holds no time at all, to
  \<open>onScrubChange\<close>, although the start 1000 and the estimated end 2000 are valid.
\<close>

theorem scrub_zero_width_invalid:
  "snd (handleScrub props_1000_2000 (Some bar_0) 1 scrubber_init) = Some Invalid_Date"
  by (simp add: handleScrub_def props_1000_2000_valid bar_0_def Let_def)

text \<open>
  C10, amended. For every pointer coordinate, inside or outside the bar, every start and
  estimated end with the end after the start and at most \<open>2 ^ 53\<close> milliseconds after it,
  and a bar of non-zero width: whatever \<open>handleScrub\<close> emits is a valid \<open>Date\<close> whose time
  lies in the closed interval from the start to the estimated end.
\<close>

theorem scrub_time_in_range:
  assumes st: "startTime p = Some s" and en: "estimatedEndTime p = Some e"
    and lt: "s < e" and span: "e - s \<le> 2 ^ 53" and w: "rect_width rect \<noteq> 0"
    and em: "snd (handleScrub p (Some rect) clientX st) = Some d"
  shows "\<exists>t. d = Date_ms t \<and> s \<le> t \<and> t \<le> e"
proof -
  from em have dn: "totalDuration p \<noteq> 0"
    by (auto simp: handleScrub_def split: if_splits)
  from totalDuration_nonzeroD [OF dn] st en
  have vs: "validStartTime p = Some s" and ve: "validEndTime p = Some e"
    by auto
  note hv = handleScrub_valid [OF vs ve lt span w, of clientX]
  from hv(1) [of st] em
  have "d = Date_ms (js_trunc (scrub_time s (real_of_int (e - s)) (drag_position rect clientX)))"
    by simp
  with js_trunc_between [OF hv(2) hv(3)] show ?thesis
    by blast
qed

theorem scrub_time_in_range_witness:
  "snd (handleScrub props_1_101 (Some bar_100) 29 scrubber_init) = Some (Date_ms 29)
   \<and> (\<exists>t. Date_ms 29 = Date_ms t \<and> 1 \<le> t \<and> t \<le> 101)"
proof -
  have "snd (handleScrub props_1_101 (Some bar_100) 29 scrubber_init)
        = Some (new_Date (Some (scrub_time 1 100 (drag_position bar_100 29))))"
    by (rule handleScrub_emits) (simp_all add: props_1_101_valid bar_100_def)
  then have em: "snd (handleScrub props_1_101 (Some bar_100) 29 scrubber_init) = Some (Date_ms 29)"
    by (simp add: drag_position_29 scrub_time_29 js_trunc_def)
  have "\<exists>t. Date_ms 29 = Date_ms t \<and> 1 \<le> t \<and> t \<le> 101"
    by (rule scrub_time_in_range [OF _ _ _ _ _ em, of 1 101])
      (simp_all add: props_1_101_def bar_100_def)
  with em show ?thesis by simp
qed

text \<open>
  A span of more than \<open>2 ^ 53\<close> milliseconds is not a double in general: for the earliest
  start a \<open>Date\<close> can hold and an end one millisecond before the latest, the duration rounds
  up, and the right edge of the bar emits a time one millisecond after the end.
\<close>

lemma fl_wide_span: "fl 17279999999999999 = 17280000000000000"
  by (subst fl_at [where k = 53]) (simp_all add: round_half_even_def)

lemma fl_wide_span_exact: "fl 17280000000000000 = 17280000000000000"
  by (subst fl_at [where k = 53]) (simp_all add: round_half_even_def)

lemma scrub_time_wide_span:
  "estimatedEndTime props_wide = Some 8639999999999999
   \<and> snd (handleScrub props_wide (Some bar_100) 100 scrubber_init) = Some (Date_ms 8640000000000000)"
proof -
  have vs: "validStartTime props_wide = Some (- 8640000000000000)"
    and d: "totalDuration props_wide = 17280000000000000"
    by (simp_all add: props_wide_def validStartTime_def validEndTime_def valid_time_def
        totalDuration_def js_trunc_def js_sub_def fl_wide_span)
  have p: "drag_position bar_100 100 = 1"
    by (simp add: drag_position_def clamp_x_def bar_100_def js_sub_def js_div_def)
  have "snd (handleScrub props_wide (Some bar_100) 100 scrubber_init)
        = Some (new_Date (Some (scrub_time (- 8640000000000000) 17280000000000000
                                  (drag_position bar_100 100))))"
    by (rule handleScrub_emits [OF vs _ d]) (simp_all add: bar_100_def)
  then show ?thesis
    by (simp add: p scrub_time_def js_add_def js_mul_def js_div_def fl_wide_span_exact
        props_wide_def js_trunc_def)
qed


section \<open>Properties of the Polling Client\<close>

lemma timestamp_reading_at [simp]: "timestamp (reading_at n) = n"
  by (simp add: reading_at_def)

lemma reading_at_inject [simp]: "(reading_at m = reading_at n) = (m = n)"
  by (auto simp: reading_at_def)

lemma run_ticks: "run c (replicate n Tick) = c\<lparr>pending := pending c + n, started := started c + n\<rparr>"
proof (induction n arbitrary: c)
  case 0
  show ?case by (simp add: run_def)
next
  case (Suc n)
  have "run c (replicate (Suc n) Tick) = run (step c Tick) (replicate n Tick)"
    by (simp add: run_def)
  then show ?case
    by (simp add: Suc fetchReadings_start_def)
qed

text \<open>
  C1, as stated, fails: the interval callback has no guard. After the mount (one fetch in
  flight) and one tick, two fetches are in flight; the next tick, fired while none of them
  has completed, starts a third.
\<close>

theorem overlapping_ticks_fetch:
  "pending (run mount [Tick]) = 2
   \<and> started (run mount [Tick, Tick]) = started (run mount [Tick]) + 1
   \<and> pending (run mount [Tick, Tick]) = 3"
  by (simp add: run_def mount_def fetchReadings_start_def)

text \<open>
  C1, amended. The Polling Client calls \<open>fetchReadings\<close> on every tick of its fixed
  interval, whether or not an earlier fetch is still in flight: a tick starts exactly one
  fetch and leaves the component state alone, ticks are never skipped, and \<open>n\<close> ticks
  during which no fetch completes leave \<open>n\<close> more fetches in flight.
\<close>

theorem every_tick_fetches:
  "started (step c Tick) = started c + 1
   \<and> pending (step c Tick) = pending c + 1
   \<and> ui (step c Tick) = ui c
   \<and> pending (run c (replicate n Tick)) = pending c + n
   \<and> started (run c (replicate n Tick)) = started c + n"
  by (simp add: run_ticks fetchReadings_start_def)

text \<open>
  C8. When a fetch fails (the request is rejected, the body is not JSON, or the JSON value
  is not an array), the reading list, the current reading and the selected time are
  exactly as before; the failure is written to the console and nothing else happens; and
  the next tick starts a fetch as usual.
\<close>

theorem failed_poll_keeps_state:
  assumes "failed res"
  shows "fst (fetchReadings_settle res s) = s
    \<and> Console_error res \<in> set (snd (fetchReadings_settle res s))
    \<and> ui (step c (Settled res)) = ui c
    \<and> (0 < pending c \<longrightarrow> Console_error res \<in> set (console (step c (Settled res)))
          \<and> pending (step c (Settled res)) = pending c - 1)
    \<and> started (step (step c (Settled res)) Tick) = started c + 1
    \<and> pending (step (step c (Settled res)) Tick) = pending (step c (Settled res)) + 1"
  using assms by (cases res) (simp_all add: fetchReadings_start_def)

theorem failed_poll_keeps_state_witness:
  "failed Fetch_rejected
   \<and> fetchReadings_settle Fetch_rejected three_readings = (three_readings, [Console_error Fetch_rejected])
   \<and> ui (step mount (Settled Json_unparseable)) = ui mount"
  using failed_poll_keeps_state [of Fetch_rejected three_readings mount]
    failed_poll_keeps_state [of Json_unparseable three_readings mount]
  by simp

lemma sorted_last_max:
  "sorted (map f xs) \<Longrightarrow> x \<in> set xs \<Longrightarrow> f x \<le> f (last xs)"
  by (induction xs) (auto split: if_splits)

text \<open>
  C2, as stated, fails. With readings at 100, 200 and 300, scrubbing to time 100 selects the
  reading at 100 and leaves an active manual selection; the next successful poll, returning
  the readings in the order 100, 300, 200, sets the current reading to the one at 300.
\<close>

theorem poll_overrides_selection:
  "manual_selection (fst (onScrubChange (Date_ms 100) three_readings))
   \<and> currentReading (fst (onScrubChange (Date_ms 100) three_readings)) = Some (reading_at 100)
   \<and> currentReading (fst (fetchReadings_settle (Json_readings [reading_at 100, reading_at 300, reading_at 200])
        (fst (onScrubChange (Date_ms 100) three_readings)))) = Some (reading_at 300)
   \<and> reading_at 300 \<noteq> reading_at 100"
  by (simp add: onScrubChange_def closestReading_def closer_def three_readings_def manual_selection_def Let_def)

text \<open>
  C2, amended. On every successful poll that returns at least one reading, the reading
  list is replaced wholesale by the fetched readings sorted by timestamp ascending (the
  same readings, in order), and the current reading is set to a fetched reading of maximum
  timestamp, whether or not the Scrubber has an active manual selection; the selected time
  itself is left as it was. A successful poll that returns no reading empties the list and
  leaves the current reading as it was.
\<close>

theorem poll_success:
  assumes ne: "fetched \<noteq> []"
  shows "sorted (map timestamp (readings (fst (fetchReadings_settle (Json_readings fetched) s))))
    \<and> mset (readings (fst (fetchReadings_settle (Json_readings fetched) s))) = mset fetched
    \<and> (\<exists>r. currentReading (fst (fetchReadings_settle (Json_readings fetched) s)) = Some r
          \<and> r \<in> set fetched \<and> (\<forall>x\<in>set fetched. timestamp x \<le> timestamp r))
    \<and> selectedTime (fst (fetchReadings_settle (Json_readings fetched) s)) = selectedTime s
    \<and> fst (fetchReadings_settle (Json_readings []) s) = s\<lparr>readings := []\<rparr>"
proof -
  let ?xs = "sort_key timestamp fetched"
  have n: "?xs \<noteq> []"
    using ne by (metis mset_sort mset_zero_iff)
  have l: "?xs ! (length ?xs - 1) = last ?xs"
    using n by (simp add: last_conv_nth)
  have s: "sorted (map timestamp ?xs)"
    by (rule sorted_sort_key)
  have m: "\<forall>x\<in>set fetched. timestamp x \<le> timestamp (last ?xs)"
    using sorted_last_max [OF s] by simp
  have i: "last ?xs \<in> set fetched"
    using last_in_set [OF n] by simp
  show ?thesis
    using n l s m i by (simp add: Let_def)
qed

theorem poll_success_witness:
  "[reading_at 100, reading_at 300, reading_at 200] \<noteq> []
   \<and> readings (fst (fetchReadings_settle (Json_readings [reading_at 100, reading_at 300, reading_at 200]) three_readings))
       = [reading_at 100, reading_at 200, reading_at 300]
   \<and> currentReading (fst (fetchReadings_settle (Json_readings [reading_at 100, reading_at 300, reading_at 200]) three_readings))
       = Some (reading_at 300)"
  using poll_success [of "[reading_at 100, reading_at 300, reading_at 200]" three_readings]
  by (simp add: Let_def)


section \<open>Properties of the nearest-reading selection\<close>

lemma closer_Some: "closer (Some t) p c = (if dist_to t c < dist_to t p then c else p)"
  by (simp add: closer_def dist_to_def)

lemma foldl_closer_pick:
  "foldl (closer (Some t)) a xs = a
   \<or> (foldl (closer (Some t)) a xs \<in> set xs \<and> dist_to t (foldl (closer (Some t)) a xs) < dist_to t a)"
proof (induction xs arbitrary: a)
  case Nil
  show ?case by simp
next
  case (Cons x xs)
  show ?case
  proof (cases "dist_to t x < dist_to t a")
    case True
    with Cons.IH [of x] show ?thesis
      by (auto simp: closer_Some)
  next
    case False
    with Cons.IH [of a] show ?thesis
      by (auto simp: closer_Some)
  qed
qed

lemma foldl_closer_le_start: "dist_to t (foldl (closer (Some t)) a xs) \<le> dist_to t a"
  using foldl_closer_pick [of t a xs] by auto

lemma foldl_closer_best:
  "y \<in> set xs \<Longrightarrow> dist_to t (foldl (closer (Some t)) a xs) \<le> dist_to t y"
proof (induction xs arbitrary: a)
  case Nil
  then show ?case by simp
next
  case (Cons x xs)
  let ?a' = "closer (Some t) a x"
  have ax: "dist_to t ?a' \<le> dist_to t x"
    by (simp add: closer_Some)
  from Cons.prems consider "y = x" | "y \<in> set xs" by auto
  then show ?case
  proof cases
    case 1
    with ax foldl_closer_le_start [of t ?a' xs] show ?thesis by simp
  next
    case 2
    with Cons.IH [of ?a'] show ?thesis by simp
  qed
qed

lemma foldl_closer_tie:
  assumes "sorted (map timestamp xs)" "\<forall>y\<in>set xs. timestamp a \<le> timestamp y"
    "y \<in> set xs" "dist_to t y = dist_to t (foldl (closer (Some t)) a xs)"
  shows "timestamp (foldl (closer (Some t)) a xs) \<le> timestamp y"
  using assms
proof (induction xs arbitrary: a)
  case Nil
  then show ?case by simp
next
  case (Cons x xs)
  let ?a' = "closer (Some t) a x"
  let ?m = "foldl (closer (Some t)) ?a' xs"
  have sx: "sorted (map timestamp xs)" and xle: "\<forall>z\<in>set xs. timestamp x \<le> timestamp z"
    and ax: "timestamp a \<le> timestamp x" and ale: "\<forall>z\<in>set xs. timestamp a \<le> timestamp z"
    using Cons.prems(1,2) by auto
  have a'le: "\<forall>z\<in>set xs. timestamp ?a' \<le> timestamp z"
    using xle ale by (simp add: closer_Some)
  have eq: "dist_to t y = dist_to t ?m"
    using Cons.prems(4) by simp
  from Cons.prems(3) consider "y = x" | "y \<in> set xs" by auto
  then show ?case
  proof cases
    case 2
    from Cons.IH [OF sx a'le 2 eq] show ?thesis by simp
  next
    case 1
    from foldl_closer_pick [of t ?a' xs] show ?thesis
    proof
      assume m: "?m = ?a'"
      with eq 1 have "dist_to t x = dist_to t ?a'" by simp
      then have "?a' = a \<or> ?a' = x"
        by (simp add: closer_Some)
      with m 1 ax show ?thesis by auto
    next
      assume "?m \<in> set xs \<and> dist_to t ?m < dist_to t ?a'"
      moreover have "dist_to t ?a' \<le> dist_to t x"
        by (simp add: closer_Some)
      ultimately show ?thesis using eq 1 by simp
    qed
  qed
qed

text \<open>
  C5. For every non-empty reading list sorted by timestamp ascending and every target time,
  the scrub callback selects a reading of the list whose timestamp has the least absolute
  difference from the target, and among the readings at that least distance it selects one
  of earliest timestamp (so a target exactly between two readings selects the earlier).
\<close>

theorem closest_reading_nearest:
  assumes ne: "rs \<noteq> []" and srt: "sorted (map timestamp rs)" and rd: "readings s = rs"
  shows "\<exists>r. closestReading rs (Some t) = Inr r \<and> r \<in> set rs
    \<and> (\<forall>x\<in>set rs. \<bar>timestamp r - t\<bar> \<le> \<bar>timestamp x - t\<bar>)
    \<and> (\<forall>x\<in>set rs. \<bar>timestamp x - t\<bar> = \<bar>timestamp r - t\<bar> \<longrightarrow> timestamp r \<le> timestamp x)
    \<and> onScrubChange (Date_ms t) s = (s\<lparr>selectedTime := Some (Some t), currentReading := Some r\<rparr>, None)"
proof -
  from ne obtain a xs where rs: "rs = a # xs"
    by (cases rs) auto
  let ?m = "foldl (closer (Some t)) a xs"
  have sx: "sorted (map timestamp xs)" and ale: "\<forall>y\<in>set xs. timestamp a \<le> timestamp y"
    using srt rs by auto
  have c: "closestReading rs (Some t) = Inr ?m"
    by (simp add: closestReading_def rs)
  have mem: "?m \<in> set rs"
    using foldl_closer_pick [of t a xs] rs by auto
  have best: "dist_to t ?m \<le> dist_to t x" if "x \<in> set rs" for x
    using that rs foldl_closer_le_start [of t a xs] foldl_closer_best [of x xs t a] by auto
  have tie: "timestamp ?m \<le> timestamp x" if "x \<in> set rs" "dist_to t x = dist_to t ?m" for x
  proof (cases "x \<in> set xs")
    case True
    from foldl_closer_tie [OF sx ale True that(2)] show ?thesis .
  next
    case False
    with that rs have xa: "x = a" by simp
    from foldl_closer_pick [of t a xs] show ?thesis
    proof
      assume "?m = a" with xa show ?thesis by simp
    next
      assume "?m \<in> set xs \<and> dist_to t ?m < dist_to t a"
      with that(2) xa show ?thesis by simp
    qed
  qed
  have o: "onScrubChange (Date_ms t) s = (s\<lparr>selectedTime := Some (Some t), currentReading := Some ?m\<rparr>, None)"
    by (simp add: onScrubChange_def rd c Let_def)
  show ?thesis
    using c mem best tie o unfolding dist_to_def by blast
qed

theorem closest_reading_nearest_witness:
  "[reading_at 100, reading_at 200, reading_at 300] \<noteq> []
   \<and> sorted (map timestamp [reading_at 100, reading_at 200, reading_at 300])
   \<and> closestReading [reading_at 100, reading_at 200, reading_at 300] (Some 150) = Inr (reading_at 100)"
  using closest_reading_nearest [of "[reading_at 100, reading_at 200, reading_at 300]" three_readings 150]
  by (simp add: closestReading_def closer_def)


section \<open>Properties of the data table\<close>

lemma formatOrSkip_Some:
  "formatOrSkip v f
   = Some (if v = JNull \<or> v = JUndefined \<or> v = JStr [] then Text ''Unknown'' else f v)"
  by (simp add: formatOrSkip_def SHOW_UNKNOWN_def)

lemma row_Wind:
  "row_value (getTableSections h r) ''Wind''
   = formatOrSkip (js_and (num (wind_speed r)) (num (wind_direction r)))
       (\<lambda>_. Text (js_toString h (num (wind_speed r)) @ '' km/h from ''
               @ js_toString h (num (wind_direction r)) @ degree_sign))"
  by (simp add: row_value_def getTableSections_def sections_def formatOrSkip_Some Let_def)

lemma row_Wind_effect:
  "row_value (getTableSections h r) ''Wind effect''
   = formatOrSkip (windComponent h r)
       (\<lambda>v. Text (toFixed h \<bar>numOf v\<bar> 1 @ '' km/h '' @ wind_label (numOf v)))"
  by (simp add: row_value_def getTableSections_def sections_def formatOrSkip_Some Let_def)

lemma row_Time_in_air:
  "row_value (getTableSections h r) ''Time in air''
   = formatOrSkip (timeInAirMinutes r)
       (\<lambda>_. Text (number_toString h (real_of_int \<lfloor>js_div (numOf (timeInAirMinutes r)) 60\<rfloor>) @ ''h ''
              @ number_toString h (js_rem (numOf (timeInAirMinutes r)) 60) @ ''m''))"
  by (simp add: row_value_def getTableSections_def sections_def formatOrSkip_Some Let_def)

lemma row_Time_to_dest:
  "row_value (getTableSections h r) ''Time to dest''
   = formatOrSkip (num (time_to_destination_minutes r)) (\<lambda>v. Text (js_toString h v @ '' min''))"
  by (simp add: row_value_def getTableSections_def sections_def formatOrSkip_Some Let_def)

lemma digits_small: "n < 10 \<Longrightarrow> digits n = [''0123456789'' ! n]"
  by (simp add: digits.simps)

lemma decimal_0: "decimal 0 = ''0''"
  by (simp add: decimal_def digits_small)

lemma decimal_20: "decimal 20 = ''20''"
  by (simp add: decimal_def digits.simps [of 20] digits_small)

lemma decimal_90: "decimal 90 = ''90''"
  by (simp add: decimal_def digits.simps [of 90] digits_small)

text \<open>
  C3. The code departs from the claim: for a reading whose \<open>total_flight_time_minutes\<close> is
  absent, the row \<open>Time in air\<close> shows the zero duration \<open>0h 0m\<close>, while an absent
  \<open>time_to_destination_minutes\<close> in the same reading shows \<open>Unknown\<close>.
\<close>

theorem time_in_air_absent_shows_zero:
  "total_flight_time_minutes (reading_at 0) = Null
   \<and> row_value (getTableSections whole_number_host (reading_at 0)) ''Time in air'' = Some (Text ''0h 0m'')
   \<and> time_to_destination_minutes (reading_at 0) = Null
   \<and> row_value (getTableSections whole_number_host (reading_at 0)) ''Time to dest'' = Some (Text ''Unknown'')"
  by (simp add: row_Time_in_air row_Time_to_dest formatOrSkip_Some timeInAirMinutes_def js_or_def
      reading_at_def whole_number_host_def decimal_0 js_rem_def js_trunc_def js_div_def)

text \<open>
  C9, as stated, fails for the \<open>Wind\<close> row: with wind speed 0 from direction 90 the row shows
  the text computed from the two fields, not \<open>Unknown\<close>.
\<close>

theorem wind_row_shows_zero:
  "wind_speed still_air = Present 0
   \<and> row_value (getTableSections whole_number_host still_air) ''Wind''
       = Some (Text (''0 km/h from 90'' @ degree_sign))
   \<and> ''0 km/h from 90'' @ degree_sign \<noteq> ''Unknown''"
  by (simp add: row_Wind formatOrSkip_Some js_and_def still_air_def reading_at_def
      whole_number_host_def decimal_0 decimal_90 degree_sign_def)

lemma windComponent_zero:
  assumes "wind_speed r = Present 0 \<or> wind_direction r = Present 0 \<or> true_heading r = Present 0"
  shows "windComponent h r = JNull"
proof -
  have "\<not> truthy (js_and (js_and (num (wind_speed r)) (num (wind_direction r))) (num (true_heading r)))"
    using assms
    by (cases "wind_speed r"; cases "wind_direction r"; cases "true_heading r")
      (auto simp: js_and_def)
  then show ?thesis
    by (simp add: windComponent_def)
qed

lemma wind_text_not_Unknown: "a @ '' km/h from '' @ b @ degree_sign \<noteq> ''Unknown''"
proof
  assume "a @ '' km/h from '' @ b @ degree_sign = ''Unknown''"
  then have "length (a @ '' km/h from '' @ b @ degree_sign) = length ''Unknown''"
    by (rule arg_cong)
  then show False
    by (simp add: degree_sign_def)
qed

text \<open>
  C9, amended. Whenever \<open>wind_speed\<close>, \<open>wind_direction\<close> or \<open>true_heading\<close> equals 0, the
  \<open>Wind effect\<close> row is displayed as \<open>Unknown\<close> rather than computed, because the presence
  of the three is tested by truthiness. The \<open>Wind\<close> row is not: its value is tested by
  strict comparison with \<open>null\<close>, \<open>undefined\<close> and the empty string, which the number 0
  passes, so for \<open>wind_speed\<close> equal to 0, or \<open>wind_direction\<close> equal to 0 with a
  \<open>wind_speed\<close> present, the row shows the text computed from the two fields.
\<close>

theorem zero_wind_rows:
  assumes "wind_speed r = Present 0 \<or> wind_direction r = Present 0 \<or> true_heading r = Present 0"
  shows "row_value (getTableSections h r) ''Wind effect'' = Some (Text ''Unknown'')
    \<and> (wind_speed r = Present 0 \<or> (\<exists>ws. wind_speed r = Present ws \<and> wind_direction r = Present 0)
        \<longrightarrow> row_value (getTableSections h r) ''Wind''
              = Some (Text (js_toString h (num (wind_speed r)) @ '' km/h from ''
                      @ js_toString h (num (wind_direction r)) @ degree_sign))
            \<and> row_value (getTableSections h r) ''Wind'' \<noteq> Some (Text ''Unknown''))"
proof -
  have eff: "row_value (getTableSections h r) ''Wind effect'' = Some (Text ''Unknown'')"
    by (simp add: row_Wind_effect windComponent_zero [OF assms] formatOrSkip_Some)
  have wind: "row_value (getTableSections h r) ''Wind''
              = Some (Text (js_toString h (num (wind_speed r)) @ '' km/h from ''
                      @ js_toString h (num (wind_direction r)) @ degree_sign))"
    if "wind_speed r = Present 0 \<or> (\<exists>ws. wind_speed r = Present ws \<and> wind_direction r = Present 0)"
  proof -
    from that have "js_and (num (wind_speed r)) (num (wind_direction r)) = JNum 0"
      by (auto simp: js_and_def)
    then show ?thesis
      by (simp add: row_Wind formatOrSkip_Some)
  qed
  show ?thesis
    using eff wind wind_text_not_Unknown by simp
qed

theorem zero_wind_rows_witness:
  "wind_direction north_wind = Present 0
   \<and> row_value (getTableSections whole_number_host north_wind) ''Wind effect''
       = Some (Text ''Unknown'')
   \<and> row_value (getTableSections whole_number_host north_wind) ''Wind''
       = Some (Text (''20 km/h from 0'' @ degree_sign))"
  using zero_wind_rows [of north_wind whole_number_host]
  by (simp add: north_wind_def reading_at_def whole_number_host_def decimal_0 decimal_20)

end
